theory Spec2Isabelle
  imports Main "HOL-Library.AList"
begin

section \<open>Python values used by facescan.py\<close>

text \<open>
  Strings are lists of 8-bit code points; the emoji of the user messages are left out of
  the message texts. An exception is its class and the text \<open>str(e)\<close> gives.
\<close>

datatype exn_class = JSONDecodeError | FileNotFoundError | ValueError | OSError

datatype py_exception = Raise exn_class string

fun exn_class_of :: "py_exception \<Rightarrow> exn_class" where
  "exn_class_of (Raise c m) = c"

fun str_of :: "py_exception \<Rightarrow> string" where
  "str_of (Raise c m) = m"

text \<open>
  \<open>str.isspace\<close> on the code points below 256, which is the set \<open>str.strip()\<close>
  removes at both ends.
\<close>

definition py_isspace :: "char \<Rightarrow> bool" where
  "py_isspace c = (of_char c \<in> {9, 10, 11, 12, 13, 28, 29, 30, 31, 32, 133, 160 :: nat})"

definition py_strip :: "string \<Rightarrow> string" where
  "py_strip s = rev (dropWhile py_isspace (rev (dropWhile py_isspace s)))"

definition py_endswith :: "string \<Rightarrow> string \<Rightarrow> bool" where
  "py_endswith s suf = (length suf \<le> length s \<and> drop (length s - length suf) s = suf)"

text \<open>\<open>str.rfind\<close> of one character: the highest index holding it, or -1.\<close>

definition py_rfind :: "string \<Rightarrow> char \<Rightarrow> int" where
  "py_rfind s c =
     (if c \<in> set s then int (length s) - 1 - int (length (takeWhile (\<lambda>x. x \<noteq> c) (rev s)))
      else - 1)"

text \<open>
  \<open>os.path.join\<close> and \<open>os.path.splitext\<close> of posixpath. \<open>splitext\<close> cuts at the
  last dot of the last component, unless only dots stand before it in that component.
\<close>

definition os_path_join :: "string \<Rightarrow> string \<Rightarrow> string" where
  "os_path_join a b =
     (if b \<noteq> [] \<and> hd b = CHR ''/'' then b
      else if a = [] \<or> last a = CHR ''/'' then a @ b
      else a @ ''/'' @ b)"

definition os_path_splitext :: "string \<Rightarrow> string \<times> string" where
  "os_path_splitext p =
     (let sepIndex = py_rfind p (CHR ''/'');
          dotIndex = py_rfind p (CHR ''.'')
      in if dotIndex > sepIndex \<and>
            list_ex (\<lambda>c. c \<noteq> CHR ''.'')
              (take (nat (dotIndex - (sepIndex + 1))) (drop (nat (sepIndex + 1)) p))
         then (take (nat dotIndex) p, drop (nat dotIndex) p)
         else (p, []))"

section \<open>User messages\<close>

text \<open>
  What \<open>st.error\<close>, \<open>st.warning\<close> and \<open>st.success\<close> show, in the order of the
  calls. The calls that only lay out or display (\<open>st.info\<close>, \<open>st.image\<close>,
  \<open>st.write\<close>, \<open>st.balloons\<close>, the spinners and columns) are left out.
\<close>

datatype level = Error | Warning | Success

datatype ui_msg = Msg level string

fun level_of :: "ui_msg \<Rightarrow> level" where
  "level_of (Msg l t) = l"

section \<open>The files the program reads and writes\<close>

text \<open>
  \<open>attendance.json\<close> holds one record per check. What \<open>json.load\<close> returns from it
  is either a bare scalar or a list of objects with the members Name, Type and Time;
  other JSON documents are outside the model.
\<close>

record attendance_record =
  Name :: string
  Type :: string
  Time :: string

datatype py_scalar = PyBool bool | PyInt int | PyStr string

datatype py_data = Scalar py_scalar | Records "attendance_record list"

datatype ledger_file =
    Absent
  | NotJson
  | Json py_data

type_synonym dataframe = "attendance_record list"

text \<open>
  How rewriting the ledger can fail: \<open>open(JSON_FILE, 'w')\<close> raises, and the file is
  as before; or the open succeeds, which truncates the file, and \<open>json.dump\<close> or the
  write raises afterwards, which leaves the file empty or with a part of the text.
\<close>

datatype write_failure = OpenFails py_exception | DumpFails py_exception

text \<open>
  The world: the ledger file, whether rewriting it fails (and how), whether the directory
  \<open>faces_db\<close> exists, the regular files other than the ledger by path, in the order a
  directory listing enumerates them, and the paths \<open>cv2.imwrite\<close> can write (it
  returns False elsewhere, and nothing is written).
  Paths are compared as strings and every directory entry is a regular file;
  \<open>cv2.imwrite\<close> raises nothing, and removing a file that exists succeeds. A new
  file is enumerated last; no theorem below depends on where a new entry stands.
\<close>

record 'img world =
  ledger :: ledger_file
  ledger_write_error :: "write_failure option"
  db_dir :: bool
  disk :: "(string \<times> 'img) list"
  writable :: "string \<Rightarrow> bool"

definition DB_PATH :: string where
  "DB_PATH = ''faces_db''"

definition JSON_FILE :: string where
  "JSON_FILE = ''attendance.json''"

definition temp_img :: string where
  "temp_img = ''temp_live.jpg''"

definition os_path_exists :: "'img world \<Rightarrow> string \<Rightarrow> bool" where
  "os_path_exists w p =
     (if p = JSON_FILE then ledger w \<noteq> Absent
      else if p = DB_PATH then db_dir w
      else p \<in> set (map fst (disk w)))"

text \<open>
  The name a path has inside directory \<open>d\<close>, when the path is an entry of \<open>d\<close> itself.
\<close>

definition child_of :: "string \<Rightarrow> string \<Rightarrow> string option" where
  "child_of d p =
     (let pre = d @ ''/''; n = drop (length pre) p
      in if take (length pre) p = pre \<and> n \<noteq> [] \<and> CHR ''/'' \<notin> set n then Some n else None)"

definition os_listdir :: "'img world \<Rightarrow> string \<Rightarrow> string list" where
  "os_listdir w d = List.map_filter (child_of d) (map fst (disk w))"

definition cv2_imwrite :: "'img world \<Rightarrow> string \<Rightarrow> 'img \<Rightarrow> 'img world" where
  "cv2_imwrite w p img =
     (if writable w p then w\<lparr>disk := AList.update p img (disk w)\<rparr> else w)"

definition os_remove :: "'img world \<Rightarrow> string \<Rightarrow> 'img world" where
  "os_remove w p = w\<lparr>disk := AList.delete p (disk w)\<rparr>"

section \<open>The ledger: load, save, log\_check\<close>

text \<open>
  \<open>open(JSON_FILE, 'r')\<close> followed by \<open>json.load\<close>: FileNotFoundError on a missing
  file, JSONDecodeError on text that is not JSON, the parsed data otherwise.
\<close>

definition json_load :: "'img world \<Rightarrow> py_exception + py_data" where
  "json_load w =
     (case ledger w of
        Absent \<Rightarrow> Inl (Raise FileNotFoundError JSON_FILE)
      | NotJson \<Rightarrow> Inl (Raise JSONDecodeError ''Expecting value'')
      | Json data \<Rightarrow> Inr data)"

text \<open>
  \<open>pd.DataFrame(data)\<close>: a list of records becomes one row per record, in order; a
  scalar is refused with ValueError.
\<close>

definition pd_DataFrame :: "py_data \<Rightarrow> py_exception + dataframe" where
  "pd_DataFrame data =
     (case data of
        Scalar v \<Rightarrow> Inl (Raise ValueError ''DataFrame constructor not properly called!'')
      | Records rs \<Rightarrow> Inr rs)"

definition empty_frame :: dataframe where
  "empty_frame = []"

definition pd_concat :: "dataframe \<Rightarrow> dataframe \<Rightarrow> dataframe" where
  "pd_concat df new_entry = df @ new_entry"

definition to_dict_records :: "dataframe \<Rightarrow> attendance_record list" where
  "to_dict_records df = df"

text \<open>
  The body of the \<open>try\<close> of \<open>load_attendance_data\<close>, then its
  \<open>except (json.JSONDecodeError, FileNotFoundError)\<close>; any other exception leaves
  the function.
\<close>

definition load_attendance_data :: "'img world \<Rightarrow> py_exception + dataframe" where
  "load_attendance_data w =
     (let attempt =
            (if os_path_exists w JSON_FILE
             then (case json_load w of
                     Inl e \<Rightarrow> Inl e
                   | Inr data \<Rightarrow> pd_DataFrame data)
             else Inr empty_frame)
      in case attempt of
           Inl e \<Rightarrow>
             (if exn_class_of e = JSONDecodeError \<or> exn_class_of e = FileNotFoundError
              then Inr empty_frame else Inl e)
         | Inr df \<Rightarrow> Inr df)"

text \<open>
  \<open>save_attendance_data\<close>: the whole file is rewritten with the records of the frame;
  any exception is reported and answered with False. An exception of the open leaves the
  file as it was; one raised after the open leaves the truncated file, which is not JSON.
\<close>

definition save_attendance_data ::
  "'img world \<Rightarrow> dataframe \<Rightarrow> bool \<times> 'img world \<times> ui_msg list" where
  "save_attendance_data w df =
     (let data = to_dict_records df
      in case ledger_write_error w of
           None \<Rightarrow> (True, w\<lparr>ledger := Json (Records data)\<rparr>, [])
         | Some (OpenFails e) \<Rightarrow>
             (False, w, [Msg Error (''Error saving JSON: '' @ str_of e)])
         | Some (DumpFails e) \<Rightarrow>
             (False, w\<lparr>ledger := NotJson\<rparr>, [Msg Error (''Error saving JSON: '' @ str_of e)]))"

text \<open>
  \<open>log_check\<close>; \<open>now\<close> is the clock reading as
  \<open>strftime('%Y-%m-%d %H:%M:%S')\<close> prints it. An exception of the load is not caught
  here.
\<close>

definition log_check ::
  "'img world \<Rightarrow> string \<Rightarrow> string \<Rightarrow> string \<Rightarrow>
     py_exception + (bool \<times> 'img world \<times> ui_msg list)" where
  "log_check w name check_type now =
     (case load_attendance_data w of
        Inl e \<Rightarrow> Inl e
      | Inr df \<Rightarrow>
          (let new_entry = [\<lparr>Name = name, Type = check_type, Time = now\<rparr>];
               df' = pd_concat df new_entry
           in case save_attendance_data w df' of
                (True, w', msgs) \<Rightarrow>
                  Inr (True, w',
                       msgs @ [Msg Success (check_type @ '' successfully recorded for '' @
                                            name @ '' at '' @ now)])
              | (False, w', msgs) \<Rightarrow>
                  Inr (False, w',
                       msgs @ [Msg Error (''Failed to record '' @ check_type @ '' for '' @
                                          name)])))"

section \<open>The verifier: recognize\_face\<close>

text \<open>
  \<open>DeepFace.verify(img1_path, img2_path)\<close> reads both files in the current world:
  it returns a result whose member \<open>verified\<close> is a boolean, or raises.
\<close>

datatype verdict = Verified bool | Failed py_exception

type_synonym 'img similarity_oracle = "'img world \<Rightarrow> string \<Rightarrow> string \<Rightarrow> verdict"

text \<open>
  The \<open>for\<close> loop over \<open>files\<close>, with its inner \<open>try\<close>. It yields the value of
  \<open>recognized\<close>, the second arguments of the calls made to the oracle, in order, and
  the warnings shown.
\<close>

fun scan_files ::
  "'img similarity_oracle \<Rightarrow> 'img world \<Rightarrow> string list \<Rightarrow> string option \<times> string list \<times> ui_msg list" where
  "scan_files verify w [] = (None, [], [])"
| "scan_files verify w (file # rest) =
     (let db_img_path = os_path_join DB_PATH file
      in case verify w temp_img db_img_path of
           Verified v \<Rightarrow>
             (if v then (Some (fst (os_path_splitext file)), [db_img_path], [])
              else (case scan_files verify w rest of
                      (r, calls, msgs) \<Rightarrow> (r, db_img_path # calls, msgs)))
         | Failed e \<Rightarrow>
             (case scan_files verify w rest of
                (r, calls, msgs) \<Rightarrow>
                  (r, db_img_path # calls,
                   Msg Warning (''Recognition error with '' @ file @ '': '' @ str_of e) # msgs)))"

record 'img recognition =
  recognized :: "string option"
  world_after :: "'img world"
  oracle_calls :: "string list"
  warnings :: "ui_msg list"

text \<open>
  \<open>recognize_face\<close>. Nothing between the inner \<open>try\<close> and the \<open>finally\<close> raises in
  this model, so the outer \<open>except\<close> has no branch; the \<open>finally\<close> is the last step.
\<close>

definition recognize_face :: "'img similarity_oracle \<Rightarrow> 'img world \<Rightarrow> 'img \<Rightarrow> 'img recognition" where
  "recognize_face verify w frame =
     (if \<not> os_path_exists w DB_PATH \<or> length (os_listdir w DB_PATH) = 0
      then \<lparr>recognized = None, world_after = w, oracle_calls = [], warnings = []\<rparr>
      else
        (let w1 = cv2_imwrite w temp_img frame;
             files = filter (\<lambda>f. py_endswith f ''.jpg'') (os_listdir w1 DB_PATH)
         in case scan_files verify w1 files of
              (r, calls, msgs) \<Rightarrow>
                \<lparr>recognized = r,
                 world_after = (if os_path_exists w1 temp_img then os_remove w1 temp_img else w1),
                 oracle_calls = calls,
                 warnings = msgs\<rparr>))"

section \<open>Registration: add\_face\<close>

text \<open>
  What \<open>cv2.VideoCapture(0)\<close> followed by \<open>read\<close> gives: the device does not open,
  the read fails, or a frame.
\<close>

datatype 'img camera = NotOpened | ReadFailed | Captured 'img

text \<open>The two entries of \<open>st.session_state\<close> that \<open>add_face\<close> keeps; None: not set yet.\<close>

record reg_state =
  capture_face :: "bool option"
  face_name :: "string option"

record 'img registration =
  reg_after :: reg_state
  reg_world :: "'img world"
  reg_msgs :: "ui_msg list"
  camera_opened :: nat

text \<open>
  \<open>add_face\<close>: \<open>name\<close> is the content of the text input, \<open>pressed\<close> whether the
  button Capture Face was clicked in this run; \<open>camera_opened\<close> counts the calls of
  \<open>cv2.VideoCapture\<close>.
\<close>

definition add_face ::
  "'img world \<Rightarrow> reg_state \<Rightarrow> string \<Rightarrow> bool \<Rightarrow> 'img camera \<Rightarrow> 'img registration" where
  "add_face w st name pressed cam =
     (let capture0 = (case capture_face st of None \<Rightarrow> False | Some b \<Rightarrow> b)
      in if pressed \<and> py_strip name = []
         then \<lparr>reg_after = \<lparr>capture_face = Some capture0, face_name = Some name\<rparr>,
               reg_world = w,
               reg_msgs = [Msg Error ''Please enter a valid name.''],
               camera_opened = 0\<rparr>
         else if pressed \<or> capture0
         then (case cam of
                 NotOpened \<Rightarrow>
                   \<lparr>reg_after = \<lparr>capture_face = Some False, face_name = Some name\<rparr>,
                    reg_world = w,
                    reg_msgs = [Msg Error ''Failed to access webcam.''],
                    camera_opened = 1\<rparr>
               | ReadFailed \<Rightarrow>
                   \<lparr>reg_after = \<lparr>capture_face = Some False, face_name = Some name\<rparr>,
                    reg_world = w,
                    reg_msgs = [Msg Error ''Failed to capture image from webcam.''],
                    camera_opened = 1\<rparr>
               | Captured frame \<Rightarrow>
                   (let filename = os_path_join DB_PATH (py_strip name @ ''.jpg'')
                    in \<lparr>reg_after = \<lparr>capture_face = Some False, face_name = Some []\<rparr>,
                        reg_world = cv2_imwrite w filename frame,
                        reg_msgs = [Msg Success (''Face successfully registered for **'' @
                                                 py_strip name @ ''**!'')],
                        camera_opened = 1\<rparr>))
         else \<lparr>reg_after = \<lparr>capture_face = Some capture0, face_name = Some name\<rparr>,
               reg_world = w, reg_msgs = [], camera_opened = 0\<rparr>)"

section \<open>The session controller: webcam\_verification\<close>

record 'img session =
  frame :: "'img option"
  verification_done :: bool
  last_capture_time :: "string option"

text \<open>The button clicked in a run of the script; at most one is.\<close>

datatype button = NoButton | CaptureFrame | VerifyButton | RecaptureFrame | StartNew

record 'img verification =
  session_after :: "'img session option"
  ver_world :: "'img world"
  ver_msgs :: "ui_msg list"
  ver_calls :: "string list"
  rerun :: bool

definition new_session :: "'img session" where
  "new_session = \<lparr>frame = None, verification_done = False, last_capture_time = None\<rparr>"

text \<open>
  The body of \<open>if st.button("Verify & ...")\<close>, for the session \<open>s\<close> holding the frame
  \<open>fr\<close>: the \<open>try\<close> around recognition and logging, and its \<open>except\<close>.
\<close>

definition verify_clicked ::
  "'img similarity_oracle \<Rightarrow> 'img world \<Rightarrow> 'img session \<Rightarrow> 'img \<Rightarrow> string \<Rightarrow> string \<Rightarrow> 'img verification" where
  "verify_clicked verify w s fr check_type now =
     (let r = recognize_face verify w fr
      in case recognized r of
           None \<Rightarrow>
             \<lparr>session_after = Some s, ver_world = world_after r,
              ver_msgs = warnings r @ [Msg Error ''**Face not recognized!**'',
                                       Msg Warning ''Please try the following:''],
              ver_calls = oracle_calls r, rerun = False\<rparr>
         | Some name \<Rightarrow>
             (if name = []
              then \<lparr>session_after = Some s, ver_world = world_after r,
                    ver_msgs = warnings r @ [Msg Error ''**Face not recognized!**'',
                                             Msg Warning ''Please try the following:''],
                    ver_calls = oracle_calls r, rerun = False\<rparr>
              else
                (let welcome = [Msg Success ''**Face verified successfully!**'',
                                Msg Success (''Welcome, **'' @ name @ ''**!'')]
                 in case log_check (world_after r) name check_type now of
                      Inl e \<Rightarrow>
                        \<lparr>session_after = Some s, ver_world = world_after r,
                         ver_msgs = warnings r @ welcome @
                                    [Msg Error (''Verification failed: '' @ str_of e)],
                         ver_calls = oracle_calls r, rerun = False\<rparr>
                    | Inr (ok, w', msgs) \<Rightarrow>
                        \<lparr>session_after =
                           Some (if ok then s\<lparr>verification_done := True\<rparr> else s),
                         ver_world = w',
                         ver_msgs = warnings r @ welcome @ msgs,
                         ver_calls = oracle_calls r, rerun = False\<rparr>)))"

text \<open>
  The part of \<open>webcam_verification\<close> under \<open>if ... ['frame'] is not None\<close>, for
  the session \<open>s\<close> and the messages \<open>shown\<close> so far: the buttons Verify, Recapture
  and, once \<open>verification_done\<close> is set, Start New. \<open>st.rerun()\<close> ends the run.
\<close>

definition frame_panel ::
  "'img similarity_oracle \<Rightarrow> 'img world \<Rightarrow> 'img session \<Rightarrow> ui_msg list \<Rightarrow> string \<Rightarrow> button \<Rightarrow>
     string \<Rightarrow> 'img verification" where
  "frame_panel verify w s shown check_type pressed now =
     (case frame s of
        None \<Rightarrow>
          \<lparr>session_after = Some s, ver_world = w, ver_msgs = shown,
           ver_calls = [], rerun = False\<rparr>
      | Some fr \<Rightarrow>
          (if pressed = VerifyButton
           then (let v = verify_clicked verify w s fr check_type now
                 in v\<lparr>ver_msgs := shown @ ver_msgs v\<rparr>)
           else if pressed = RecaptureFrame
           then \<lparr>session_after = Some (s\<lparr>frame := None, verification_done := False\<rparr>),
                 ver_world = w, ver_msgs = shown, ver_calls = [], rerun = True\<rparr>
           else if verification_done s \<and> pressed = StartNew
           then \<lparr>session_after = Some new_session,
                 ver_world = w, ver_msgs = shown, ver_calls = [], rerun = True\<rparr>
           else \<lparr>session_after = Some s, ver_world = w, ver_msgs = shown,
                 ver_calls = [], rerun = False\<rparr>))"

text \<open>
  \<open>webcam_verification(check_type)\<close> for one run of the script: \<open>state\<close> is
  \<open>st.session_state[session_key]\<close> (None: the key is not there yet), \<open>pressed\<close> the
  button clicked, \<open>cam\<close> what the camera gives if it is asked, \<open>now\<close> the clock.
\<close>

definition webcam_verification ::
  "'img similarity_oracle \<Rightarrow> 'img world \<Rightarrow> 'img session option \<Rightarrow> string \<Rightarrow> button \<Rightarrow> 'img camera \<Rightarrow>
     string \<Rightarrow> 'img verification" where
  "webcam_verification verify w state check_type pressed cam now =
     (if \<not> os_path_exists w DB_PATH \<or>
         length (filter (\<lambda>f. py_endswith f ''.jpg'') (os_listdir w DB_PATH)) = 0
      then \<lparr>session_after = state, ver_world = w,
            ver_msgs = [Msg Warning ''No registered faces found! Please register a face first.''],
            ver_calls = [], rerun = False\<rparr>
      else
        (let s0 = (case state of None \<Rightarrow> new_session | Some s \<Rightarrow> s)
         in if pressed = CaptureFrame
            then (case cam of
                    NotOpened \<Rightarrow>
                      \<lparr>session_after = Some s0, ver_world = w,
                       ver_msgs = [Msg Error ''Webcam access problem. Please check your camera.''],
                       ver_calls = [], rerun = False\<rparr>
                  | ReadFailed \<Rightarrow>
                      \<lparr>session_after = Some s0, ver_world = w,
                       ver_msgs = [Msg Error ''Failed to capture frame.''],
                       ver_calls = [], rerun = False\<rparr>
                  | Captured f \<Rightarrow>
                      frame_panel verify w
                        (s0\<lparr>frame := Some f, verification_done := False,
                            last_capture_time := Some now\<rparr>)
                        [Msg Success ''Frame captured successfully!''] check_type pressed now)
            else frame_panel verify w s0 [] check_type pressed now))"

section \<open>Facts about the library model\<close>

lemma py_strip_empty_iff: "py_strip s = [] \<longleftrightarrow> (\<forall>c\<in>set s. py_isspace c)"
proof -
  have "py_strip s = [] \<longleftrightarrow> (\<forall>c\<in>set (dropWhile py_isspace s). py_isspace c)"
    by (simp add: py_strip_def)
  also have "\<dots> \<longleftrightarrow> dropWhile py_isspace s = []"
  proof
    assume a: "\<forall>c\<in>set (dropWhile py_isspace s). py_isspace c"
    show "dropWhile py_isspace s = []"
    proof (rule ccontr)
      assume "dropWhile py_isspace s \<noteq> []"
      then have "\<not> py_isspace (hd (dropWhile py_isspace s))"
        and "hd (dropWhile py_isspace s) \<in> set (dropWhile py_isspace s)"
        by (simp_all add: hd_dropWhile)
      with a show False by blast
    qed
  next
    assume "dropWhile py_isspace s = []"
    then show "\<forall>c\<in>set (dropWhile py_isspace s). py_isspace c"
      by (simp del: dropWhile_eq_Nil_conv)
  qed
  also have "\<dots> \<longleftrightarrow> (\<forall>c\<in>set s. py_isspace c)"
    by simp
  finally show ?thesis .
qed

lemma child_of_temp: "child_of DB_PATH temp_img = None"
  by (simp add: child_of_def DB_PATH_def temp_img_def)

lemma map_filter_append:
  "List.map_filter f (xs @ ys) = List.map_filter f xs @ List.map_filter f ys"
  by (simp add: List.map_filter_def)

lemma listdir_imwrite_temp:
  "os_listdir (cv2_imwrite w temp_img fr) DB_PATH = os_listdir w DB_PATH"
  by (simp add: os_listdir_def cv2_imwrite_def update_keys map_filter_append child_of_temp)

lemma not_exists_after_remove: "\<not> os_path_exists (os_remove w temp_img) temp_img"
  by (simp add: os_path_exists_def os_remove_def temp_img_def JSON_FILE_def DB_PATH_def
      delete_keys)

lemma load_records: "ledger w = Json (Records rs) \<Longrightarrow> load_attendance_data w = Inr rs"
  by (simp add: load_attendance_data_def os_path_exists_def json_load_def pd_DataFrame_def)

lemma rfind_absent: "c \<notin> set s \<Longrightarrow> py_rfind s c = - 1"
  by (simp add: py_rfind_def)

lemma rfind_dot_jpg: "py_rfind (stem @ ''.jpg'') (CHR ''.'') = int (length stem)"
  by (simp add: py_rfind_def)

lemma endswith_jpg: "py_endswith f ''.jpg'' \<Longrightarrow> f = take (length f - 4) f @ ''.jpg''"
proof -
  assume "py_endswith f ''.jpg''"
  then have "drop (length f - 4) f = ''.jpg''"
    by (simp add: py_endswith_def eval_nat_numeral)
  then have "take (length f - 4) f @ ''.jpg'' = take (length f - 4) f @ drop (length f - 4) f"
    by simp
  then show ?thesis by (simp only: append_take_drop_id)
qed

lemma listdir_no_sep: "f \<in> set (os_listdir w d) \<Longrightarrow> CHR ''/'' \<notin> set f"
  by (auto simp: os_listdir_def List.map_filter_def child_of_def Let_def split: if_splits)

lemma splitext_jpg:
  assumes "CHR ''/'' \<notin> set stem"
  shows "os_path_splitext (stem @ ''.jpg'') =
           (if list_ex (\<lambda>c. c \<noteq> CHR ''.'') stem then (stem, ''.jpg'')
            else (stem @ ''.jpg'', []))"
  using assms by (simp add: os_path_splitext_def rfind_dot_jpg rfind_absent Let_def)

lemma child_of_join:
  assumes "CHR ''/'' \<notin> set n" and "n \<noteq> []"
  shows "child_of DB_PATH (os_path_join DB_PATH n) = Some n"
proof -
  from assms have "hd n \<noteq> CHR ''/''"
    by (metis hd_in_set)
  then have "os_path_join DB_PATH n = ''faces_db/'' @ n"
    by (simp add: os_path_join_def DB_PATH_def)
  with assms show ?thesis
    by (simp add: child_of_def DB_PATH_def)
qed

lemma listed_after_imwrite:
  assumes "writable w (os_path_join DB_PATH n)" and "CHR ''/'' \<notin> set n" and "n \<noteq> []"
  shows "n \<in> set (os_listdir (cv2_imwrite w (os_path_join DB_PATH n) img) DB_PATH)"
proof -
  have "os_path_join DB_PATH n \<in> set (map fst (AList.update (os_path_join DB_PATH n) img (disk w)))"
    by (simp add: update_keys)
  moreover have "child_of DB_PATH (os_path_join DB_PATH n) = Some n"
    using assms(2,3) by (rule child_of_join)
  ultimately show ?thesis
    using assms(1)
    by (force simp: os_listdir_def cv2_imwrite_def List.map_filter_def)
qed

lemmas eval_fs =
  os_listdir_def List.map_filter_def child_of_def py_endswith_def DB_PATH_def temp_img_def
  JSON_FILE_def cv2_imwrite_def os_path_join_def os_path_splitext_def py_rfind_def
  os_path_exists_def os_remove_def AList.update.simps

section \<open>Facts about the scan of the reference images\<close>

lemma scan_files_true:
  "verify w temp_img (os_path_join DB_PATH f) = Verified True \<Longrightarrow>
   scan_files verify w (f # rest) =
     (Some (fst (os_path_splitext f)), [os_path_join DB_PATH f], [])"
  by (simp add: Let_def)

lemma scan_files_false:
  "verify w temp_img (os_path_join DB_PATH f) = Verified False \<Longrightarrow>
   scan_files verify w (f # rest) =
     (fst (scan_files verify w rest),
      os_path_join DB_PATH f # fst (snd (scan_files verify w rest)),
      snd (snd (scan_files verify w rest)))"
  by (simp add: Let_def split: prod.splits)

lemma scan_files_failed:
  "verify w temp_img (os_path_join DB_PATH f) = Failed e \<Longrightarrow>
   scan_files verify w (f # rest) =
     (fst (scan_files verify w rest),
      os_path_join DB_PATH f # fst (snd (scan_files verify w rest)),
      Msg Warning (''Recognition error with '' @ f @ '': '' @ str_of e) #
        snd (snd (scan_files verify w rest)))"
  by (simp add: Let_def split: prod.splits)

lemma not_true_cases:
  "v \<noteq> Verified True \<Longrightarrow> v = Verified False \<or> (\<exists>e. v = Failed e)"
  by (cases v) auto

lemma verdict_cases3:
  "v = Verified True \<or> v = Verified False \<or> (\<exists>e. v = Failed e)"
  by (cases v) auto


lemma scan_no_match:
  "\<forall>f\<in>set fs. verify w temp_img (os_path_join DB_PATH f) \<noteq> Verified True \<Longrightarrow>
   fst (scan_files verify w fs) = None \<and>
   fst (snd (scan_files verify w fs)) = map (os_path_join DB_PATH) fs"
proof (induction fs)
  case Nil
  show ?case by simp
next
  case (Cons f fs)
  then have ih: "fst (scan_files verify w fs) = None"
    "fst (snd (scan_files verify w fs)) = map (os_path_join DB_PATH) fs"
    by simp_all
  from Cons.prems have "verify w temp_img (os_path_join DB_PATH f) \<noteq> Verified True"
    by simp
  then consider "verify w temp_img (os_path_join DB_PATH f) = Verified False"
    | e where "verify w temp_img (os_path_join DB_PATH f) = Failed e"
    using not_true_cases by blast
  then show ?case
  proof cases
    case 1
    show ?thesis by (simp add: scan_files_false [of verify w f, OF 1] ih del: scan_files.simps)
  next
    case 2
    show ?thesis by (simp add: scan_files_failed [of verify w f, OF 2] ih del: scan_files.simps)
  qed
qed

lemma scan_first_match:
  "\<forall>f\<in>set pre. verify w temp_img (os_path_join DB_PATH f) \<noteq> Verified True \<Longrightarrow>
   verify w temp_img (os_path_join DB_PATH a) = Verified True \<Longrightarrow>
   fst (scan_files verify w (pre @ a # post)) = Some (fst (os_path_splitext a)) \<and>
   fst (snd (scan_files verify w (pre @ a # post))) = map (os_path_join DB_PATH) (pre @ [a])"
proof (induction pre)
  case Nil
  then show ?case by (simp add: scan_files_true del: scan_files.simps)
next
  case (Cons f pre)
  then have ih: "fst (scan_files verify w (pre @ a # post)) = Some (fst (os_path_splitext a))"
    "fst (snd (scan_files verify w (pre @ a # post))) = map (os_path_join DB_PATH) (pre @ [a])"
    by simp_all
  from Cons.prems have "verify w temp_img (os_path_join DB_PATH f) \<noteq> Verified True"
    by simp
  then consider "verify w temp_img (os_path_join DB_PATH f) = Verified False"
    | e where "verify w temp_img (os_path_join DB_PATH f) = Failed e"
    using not_true_cases by blast
  then show ?case
  proof cases
    case 1
    show ?thesis by (simp add: scan_files_false [of verify w f, OF 1] ih del: scan_files.simps)
  next
    case 2
    show ?thesis by (simp add: scan_files_failed [of verify w f, OF 2] ih del: scan_files.simps)
  qed
qed

lemma scan_warning:
  "a \<in> set pre \<Longrightarrow> verify w temp_img (os_path_join DB_PATH a) = Failed e \<Longrightarrow>
   \<forall>f\<in>set pre. verify w temp_img (os_path_join DB_PATH f) \<noteq> Verified True \<Longrightarrow>
   Msg Warning (''Recognition error with '' @ a @ '': '' @ str_of e)
     \<in> set (snd (snd (scan_files verify w (pre @ rest))))"
proof (induction pre)
  case Nil
  then show ?case by simp
next
  case (Cons f pre)
  from Cons.prems have "verify w temp_img (os_path_join DB_PATH f) \<noteq> Verified True"
    by simp
  then consider "verify w temp_img (os_path_join DB_PATH f) = Verified False"
    | e' where "verify w temp_img (os_path_join DB_PATH f) = Failed e'"
    using not_true_cases by blast
  then show ?case
  proof cases
    case 1
    with Cons.prems have "a \<in> set pre" by auto
    with Cons have "Msg Warning (''Recognition error with '' @ a @ '': '' @ str_of e)
       \<in> set (snd (snd (scan_files verify w (pre @ rest))))" by simp
    then show ?thesis by (simp add: scan_files_false [of verify w f, OF 1] del: scan_files.simps)
  next
    case 2
    show ?thesis
    proof (cases "a = f")
      case True
      with 2 Cons.prems have "e' = e" by simp
      with True show ?thesis by (simp add: scan_files_failed [of verify w f, OF 2] del: scan_files.simps)
    next
      case False
      with Cons.prems have "a \<in> set pre" by auto
      with Cons have "Msg Warning (''Recognition error with '' @ a @ '': '' @ str_of e)
         \<in> set (snd (snd (scan_files verify w (pre @ rest))))" by simp
      then show ?thesis by (simp add: scan_files_failed [of verify w f, OF 2] del: scan_files.simps)
    qed
  qed
qed

lemma scan_calls_subset:
  "set (fst (snd (scan_files verify w fs))) \<subseteq> os_path_join DB_PATH ` set fs"
proof (induction fs)
  case Nil
  show ?case by simp
next
  case (Cons f fs)
  consider "verify w temp_img (os_path_join DB_PATH f) = Verified True"
    | "verify w temp_img (os_path_join DB_PATH f) = Verified False"
    | e where "verify w temp_img (os_path_join DB_PATH f) = Failed e"
    using verdict_cases3 by blast
  then show ?case
  proof cases
    case 1
    show ?thesis by (simp add: scan_files_true [of verify w f, OF 1] del: scan_files.simps)
  next
    case 2
    show ?thesis using Cons.IH
      by (auto simp add: scan_files_false [of verify w f, OF 2] simp del: scan_files.simps)
  next
    case 3
    show ?thesis using Cons.IH
      by (auto simp add: scan_files_failed [of verify w f, OF 3] simp del: scan_files.simps)
  qed
qed

lemma scan_some:
  "fst (scan_files verify w fs) = Some name \<Longrightarrow>
   \<exists>f\<in>set fs. verify w temp_img (os_path_join DB_PATH f) = Verified True \<and>
              name = fst (os_path_splitext f)"
proof (induction fs)
  case Nil
  then show ?case by simp
next
  case (Cons f fs)
  consider "verify w temp_img (os_path_join DB_PATH f) = Verified True"
    | "verify w temp_img (os_path_join DB_PATH f) = Verified False"
    | e where "verify w temp_img (os_path_join DB_PATH f) = Failed e"
    using verdict_cases3 by blast
  then show ?case
  proof cases
    case 1
    with Cons.prems show ?thesis
      by (simp add: scan_files_true [of verify w f, OF 1] del: scan_files.simps)
  next
    case 2
    with Cons.prems have "fst (scan_files verify w fs) = Some name"
      by (simp add: scan_files_false [of verify w f, OF 2] del: scan_files.simps)
    with Cons.IH show ?thesis by auto
  next
    case 3
    with Cons.prems have "fst (scan_files verify w fs) = Some name"
      by (simp add: scan_files_failed [of verify w f, OF 3] del: scan_files.simps)
    with Cons.IH show ?thesis by auto
  qed
qed

lemma recognize_face_scan:
  assumes "db_dir w" and "os_listdir w DB_PATH \<noteq> []"
  shows "recognize_face verify w fr =
     \<lparr>recognized =
        fst (scan_files verify (cv2_imwrite w temp_img fr)
               (filter (\<lambda>f. py_endswith f ''.jpg'') (os_listdir w DB_PATH))),
      world_after =
        (if os_path_exists (cv2_imwrite w temp_img fr) temp_img
         then os_remove (cv2_imwrite w temp_img fr) temp_img
         else cv2_imwrite w temp_img fr),
      oracle_calls =
        fst (snd (scan_files verify (cv2_imwrite w temp_img fr)
               (filter (\<lambda>f. py_endswith f ''.jpg'') (os_listdir w DB_PATH)))),
      warnings =
        snd (snd (scan_files verify (cv2_imwrite w temp_img fr)
               (filter (\<lambda>f. py_endswith f ''.jpg'') (os_listdir w DB_PATH))))\<rparr>"
  using assms
  by (simp add: recognize_face_def os_path_exists_def DB_PATH_def JSON_FILE_def Let_def
      listdir_imwrite_temp [unfolded DB_PATH_def] split: prod.splits)

lemma jpg_listing_nonempty:
  "filter (\<lambda>f. py_endswith f ''.jpg'') (os_listdir w DB_PATH) = pre @ a # post \<Longrightarrow>
   os_listdir w DB_PATH \<noteq> []"
  by auto

lemma recognize_face_guard:
  assumes "\<not> (db_dir w \<and> os_listdir w DB_PATH \<noteq> [])"
  shows "recognize_face verify w fr =
           \<lparr>recognized = None, world_after = w, oracle_calls = [], warnings = []\<rparr>"
  using assms
  by (auto simp: recognize_face_def os_path_exists_def DB_PATH_def JSON_FILE_def)

lemma splitext_listed_jpg:
  assumes "f \<in> set (os_listdir w d)" and "py_endswith f ''.jpg''"
  shows "fst (os_path_splitext f) =
           (if list_ex (\<lambda>c. c \<noteq> CHR ''.'') (take (length f - 4) f)
            then take (length f - 4) f else f)"
proof -
  have f: "f = take (length f - 4) f @ ''.jpg''"
    using assms(2) by (rule endswith_jpg)
  have "CHR ''/'' \<notin> set f"
    using assms(1) by (rule listdir_no_sep)
  then have "CHR ''/'' \<notin> set (take (length f - 4) f)"
    by (meson in_set_takeD)
  then have "os_path_splitext (take (length f - 4) f @ ''.jpg'') =
      (if list_ex (\<lambda>c. c \<noteq> CHR ''.'') (take (length f - 4) f)
       then (take (length f - 4) f, ''.jpg'')
       else (take (length f - 4) f @ ''.jpg'', []))"
    by (rule splitext_jpg)
  with f show ?thesis by (metis fst_conv)
qed

lemma recognized_some_guard:
  assumes "recognized (recognize_face verify w fr) = Some name"
  shows "db_dir w \<and> filter (\<lambda>f. py_endswith f ''.jpg'') (os_listdir w DB_PATH) \<noteq> []"
proof -
  have g: "db_dir w \<and> os_listdir w DB_PATH \<noteq> []"
    using assms by (rule contrapos_pp) (simp add: recognize_face_guard)
  then have "recognized (recognize_face verify w fr) =
      fst (scan_files verify (cv2_imwrite w temp_img fr)
             (filter (\<lambda>f. py_endswith f ''.jpg'') (os_listdir w DB_PATH)))"
    by (simp add: recognize_face_scan)
  with assms have "filter (\<lambda>f. py_endswith f ''.jpg'') (os_listdir w DB_PATH) \<noteq> []"
    by auto
  with g show ?thesis by simp
qed

lemma ledger_after_recognition: "ledger (world_after (recognize_face verify w fr)) = ledger w"
  by (simp add: recognize_face_def cv2_imwrite_def os_remove_def Let_def split: prod.splits)

section \<open>Facts about the session controller\<close>

lemma registered_guard:
  assumes "db_dir w"
    and "filter (\<lambda>f. py_endswith f ''.jpg'') (os_listdir w DB_PATH) \<noteq> []"
  shows "\<not> (\<not> os_path_exists w DB_PATH \<or>
            length (filter (\<lambda>f. py_endswith f ''.jpg'') (os_listdir w DB_PATH)) = 0)"
  using assms by (simp add: os_path_exists_def DB_PATH_def JSON_FILE_def)

lemma log_check_false:
  assumes "log_check w name check_type now = Inr (False, w', msgs)"
  shows "Msg Error (''Failed to record '' @ check_type @ '' for '' @ name) \<in> set msgs"
  using assms
  by (auto simp: log_check_def save_attendance_data_def Let_def
      split: sum.splits option.splits write_failure.splits)

section \<open>The ledger\<close>

text \<open>
  C1. When \<open>attendance.json\<close> holds a list of attendance records and the file can be
  rewritten, \<open>load\<close> returns these records, \<open>log_check\<close> returns True, and the
  \<open>load\<close> that follows returns the same records, in the same order, with the new
  record at the end.
\<close>

theorem log_check_appends_in_order:
  assumes "ledger w = Json (Records rs)" and "ledger_write_error w = None"
  shows "load_attendance_data w = Inr rs \<and>
         (\<exists>w' msgs. log_check w name check_type now = Inr (True, w', msgs) \<and>
            load_attendance_data w' =
              Inr (rs @ [\<lparr>Name = name, Type = check_type, Time = now\<rparr>]))"
  using assms
  by (simp add: log_check_def load_records save_attendance_data_def pd_concat_def
      to_dict_records_def)

theorem log_check_appends_in_order_witness:
  "\<exists>w' msgs.
     log_check
       (\<lparr>ledger = Json (Records [\<lparr>Name = ''Ann'', Type = ''Check-Out'',
                                  Time = ''2024-01-01 08:59:00''\<rparr>]),
         ledger_write_error = None, db_dir = True, disk = [],
         writable = (\<lambda>p. True)\<rparr> :: nat world)
       ''Bob'' ''Check-In'' ''2024-01-01 09:00:00'' = Inr (True, w', msgs) \<and>
     load_attendance_data w' =
       Inr [\<lparr>Name = ''Ann'', Type = ''Check-Out'', Time = ''2024-01-01 08:59:00''\<rparr>,
            \<lparr>Name = ''Bob'', Type = ''Check-In'', Time = ''2024-01-01 09:00:00''\<rparr>]"
  using log_check_appends_in_order
    [of "\<lparr>ledger = Json (Records [\<lparr>Name = ''Ann'', Type = ''Check-Out'',
                                     Time = ''2024-01-01 08:59:00''\<rparr>]),
          ledger_write_error = None, db_dir = True, disk = [],
          writable = (\<lambda>p. True)\<rparr> :: nat world"
        "[\<lparr>Name = ''Ann'', Type = ''Check-Out'', Time = ''2024-01-01 08:59:00''\<rparr>]"
        "''Bob''" "''Check-In''" "''2024-01-01 09:00:00''"]
  by simp

text \<open>
  C2, as the code has it. When \<open>attendance.json\<close> is absent, or its text is not JSON,
  \<open>load\<close> returns the empty sequence and raises nothing.
\<close>

theorem load_absent_or_not_json_is_empty:
  assumes "ledger w = Absent \<or> ledger w = NotJson"
  shows "load_attendance_data w = Inr []"
  using assms
  by (auto simp: load_attendance_data_def os_path_exists_def json_load_def empty_frame_def)

theorem load_absent_or_not_json_is_empty_witness:
  "load_attendance_data
     (\<lparr>ledger = NotJson, ledger_write_error = None, db_dir = True, disk = [],
       writable = (\<lambda>p. True)\<rparr> :: nat world) = Inr [] \<and>
   load_attendance_data
     (\<lparr>ledger = Absent, ledger_write_error = None, db_dir = True, disk = [],
       writable = (\<lambda>p. True)\<rparr> :: nat world) = Inr []"
  using load_absent_or_not_json_is_empty
      [of "\<lparr>ledger = NotJson, ledger_write_error = None, db_dir = True, disk = [],
            writable = (\<lambda>p. True)\<rparr> :: nat world"]
    load_absent_or_not_json_is_empty
      [of "\<lparr>ledger = Absent, ledger_write_error = None, db_dir = True, disk = [],
            writable = (\<lambda>p. True)\<rparr> :: nat world"]
  by simp

text \<open>
  C2, as the specification has it, fails: a file whose whole content is the JSON number
  42 is malformed as a ledger, \<open>json.load\<close> accepts it, \<open>pd.DataFrame\<close> refuses the
  number with ValueError, and the \<open>except\<close> clause lets ValueError through to the
  caller.
\<close>

theorem load_scalar_document_raises:
  "load_attendance_data
     (\<lparr>ledger = Json (Scalar (PyInt 42)), ledger_write_error = None, db_dir = True,
       disk = [], writable = (\<lambda>p. True)\<rparr> :: nat world)
   = Inl (Raise ValueError ''DataFrame constructor not properly called!'')"
  by (simp add: load_attendance_data_def os_path_exists_def json_load_def pd_DataFrame_def)

section \<open>The verifier\<close>

text \<open>
  C3. When the directory of reference images is missing or has no entry,
  \<open>recognize_face\<close> returns None for every frame and every oracle, calls the oracle
  zero times, shows nothing and leaves the files as they are.
\<close>

theorem recognize_face_empty_store:
  assumes "\<not> db_dir w \<or> os_listdir w DB_PATH = []"
  shows "recognize_face verify w fr =
           \<lparr>recognized = None, world_after = w, oracle_calls = [], warnings = []\<rparr>"
  using assms
  by (auto simp: recognize_face_def os_path_exists_def DB_PATH_def JSON_FILE_def)

theorem recognize_face_empty_store_witness:
  "recognize_face (\<lambda>w a b. Verified True)
     (\<lparr>ledger = Absent, ledger_write_error = None, db_dir = True, disk = [],
       writable = (\<lambda>p. True)\<rparr> :: nat world) 7 =
   \<lparr>recognized = None,
    world_after = \<lparr>ledger = Absent, ledger_write_error = None, db_dir = True, disk = [],
                   writable = (\<lambda>p. True)\<rparr>,
    oracle_calls = [], warnings = []\<rparr>"
  using recognize_face_empty_store
    [of "\<lparr>ledger = Absent, ledger_write_error = None, db_dir = True, disk = [],
          writable = (\<lambda>p. True)\<rparr> :: nat world" "\<lambda>w a b. Verified True" 7]
  by (simp add: os_listdir_def List.map_filter_def)

text \<open>
  C4. Let the \<open>.jpg\<close> entries of the directory be \<open>pre @ a # post\<close>, in the order
  the directory enumerates them, let the oracle report \<open>verified\<close> true for \<open>a\<close>
  and for no entry of \<open>pre\<close>. Then \<open>recognize_face\<close> returns the identity of
  \<open>a\<close>, whatever the oracle says of the entries of \<open>post\<close>, and the oracle is
  called for the entries of \<open>pre\<close> and for \<open>a\<close>, in that order, and for nothing else.
\<close>

theorem recognize_face_first_match:
  assumes "db_dir w"
    and "filter (\<lambda>f. py_endswith f ''.jpg'') (os_listdir w DB_PATH) = pre @ a # post"
    and "\<forall>f\<in>set pre.
           verify (cv2_imwrite w temp_img fr) temp_img (os_path_join DB_PATH f) \<noteq> Verified True"
    and "verify (cv2_imwrite w temp_img fr) temp_img (os_path_join DB_PATH a) = Verified True"
  shows "recognized (recognize_face verify w fr) = Some (fst (os_path_splitext a)) \<and>
         oracle_calls (recognize_face verify w fr) = map (os_path_join DB_PATH) (pre @ [a])"
proof -
  have ne: "os_listdir w DB_PATH \<noteq> []"
    using assms(2) by (rule jpg_listing_nonempty)
  show ?thesis
    using scan_first_match [where verify = verify and w = "cv2_imwrite w temp_img fr" and post = post,
        OF assms(3) assms(4)]
    by (simp add: recognize_face_scan [OF assms(1) ne] assms(2))
qed

theorem recognize_face_first_match_witness:
  "recognized
     (recognize_face
        (\<lambda>w a b. if b = ''faces_db/ann.jpg'' then Verified False else Verified True)
        (\<lparr>ledger = Absent, ledger_write_error = None, db_dir = True,
          disk = [(''faces_db/ann.jpg'', 1), (''faces_db/notes.txt'', 2),
                  (''faces_db/bob.jpg'', 3), (''faces_db/cy.jpg'', 4)],
          writable = (\<lambda>p. True)\<rparr> :: nat world) 9) = Some ''bob'' \<and>
   oracle_calls
     (recognize_face
        (\<lambda>w a b. if b = ''faces_db/ann.jpg'' then Verified False else Verified True)
        (\<lparr>ledger = Absent, ledger_write_error = None, db_dir = True,
          disk = [(''faces_db/ann.jpg'', 1), (''faces_db/notes.txt'', 2),
                  (''faces_db/bob.jpg'', 3), (''faces_db/cy.jpg'', 4)],
          writable = (\<lambda>p. True)\<rparr> :: nat world) 9) =
     [''faces_db/ann.jpg'', ''faces_db/bob.jpg'']"
  using recognize_face_first_match
    [of "\<lparr>ledger = Absent, ledger_write_error = None, db_dir = True,
          disk = [(''faces_db/ann.jpg'', 1), (''faces_db/notes.txt'', 2),
                  (''faces_db/bob.jpg'', 3), (''faces_db/cy.jpg'', 4)],
          writable = (\<lambda>p. True)\<rparr> :: nat world"
        "[''ann.jpg'']" "''bob.jpg''" "[''cy.jpg'']"
        "\<lambda>w a b. if b = ''faces_db/ann.jpg'' then Verified False else Verified True" 9]
  by (simp add: eval_fs)

text \<open>
  C5. A failure of the oracle on a reference does not end the scan: when the oracle
  raises for \<open>a\<close> and \<open>b\<close>, enumerated after \<open>a\<close>, is the first entry it reports
  \<open>verified\<close> true for, \<open>recognize_face\<close> has called the oracle for \<open>a\<close>, shows
  the warning that names \<open>a\<close> and the exception, and returns the identity of \<open>b\<close>.
\<close>

theorem recognize_face_skips_failed_reference:
  assumes "db_dir w"
    and "filter (\<lambda>f. py_endswith f ''.jpg'') (os_listdir w DB_PATH) = pre @ b # post"
    and "a \<in> set pre"
    and "verify (cv2_imwrite w temp_img fr) temp_img (os_path_join DB_PATH a) = Failed e"
    and "\<forall>f\<in>set pre.
           verify (cv2_imwrite w temp_img fr) temp_img (os_path_join DB_PATH f) \<noteq> Verified True"
    and "verify (cv2_imwrite w temp_img fr) temp_img (os_path_join DB_PATH b) = Verified True"
  shows "recognized (recognize_face verify w fr) = Some (fst (os_path_splitext b)) \<and>
         Msg Warning (''Recognition error with '' @ a @ '': '' @ str_of e)
           \<in> set (warnings (recognize_face verify w fr)) \<and>
         os_path_join DB_PATH a \<in> set (oracle_calls (recognize_face verify w fr))"
proof -
  have ne: "os_listdir w DB_PATH \<noteq> []"
    using assms(2) by (rule jpg_listing_nonempty)
  have "os_path_join DB_PATH a \<in> set (map (os_path_join DB_PATH) (pre @ [b]))"
    using assms(3) by simp
  then show ?thesis
    using scan_first_match [where verify = verify and w = "cv2_imwrite w temp_img fr" and post = post,
        OF assms(5) assms(6)]
      scan_warning [where verify = verify and w = "cv2_imwrite w temp_img fr" and
        rest = "b # post", OF assms(3) assms(4) assms(5)]
    by (simp add: recognize_face_scan [OF assms(1) ne] assms(2))
qed

theorem recognize_face_skips_failed_reference_witness:
  "recognized
     (recognize_face
        (\<lambda>w a b. if b = ''faces_db/ann.jpg''
                  then Failed (Raise ValueError ''Face could not be detected'')
                  else Verified True)
        (\<lparr>ledger = Absent, ledger_write_error = None, db_dir = True,
          disk = [(''faces_db/ann.jpg'', 1), (''faces_db/bob.jpg'', 2)],
          writable = (\<lambda>p. True)\<rparr> :: nat world) 9) = Some ''bob'' \<and>
   Msg Warning ''Recognition error with ann.jpg: Face could not be detected''
     \<in> set (warnings
         (recognize_face
            (\<lambda>w a b. if b = ''faces_db/ann.jpg''
                      then Failed (Raise ValueError ''Face could not be detected'')
                      else Verified True)
            (\<lparr>ledger = Absent, ledger_write_error = None, db_dir = True,
              disk = [(''faces_db/ann.jpg'', 1), (''faces_db/bob.jpg'', 2)],
              writable = (\<lambda>p. True)\<rparr> :: nat world) 9))"
  using recognize_face_skips_failed_reference
    [of "\<lparr>ledger = Absent, ledger_write_error = None, db_dir = True,
          disk = [(''faces_db/ann.jpg'', 1), (''faces_db/bob.jpg'', 2)],
          writable = (\<lambda>p. True)\<rparr> :: nat world"
        "[''ann.jpg'']" "''bob.jpg''" "[]" "''ann.jpg''"
        "\<lambda>w a b. if b = ''faces_db/ann.jpg''
                  then Failed (Raise ValueError ''Face could not be detected'')
                  else Verified True"
        9 "Raise ValueError ''Face could not be detected''"]
  by (simp add: eval_fs)

text \<open>
  C6. When the directory of reference images exists and has an entry,
  \<open>temp_live.jpg\<close> does not exist once \<open>recognize_face\<close> has returned, whatever
  the oracle answered or raised along the way.
\<close>

theorem recognize_face_removes_temp_image:
  assumes "db_dir w" and "os_listdir w DB_PATH \<noteq> []"
  shows "\<not> os_path_exists (world_after (recognize_face verify w fr)) temp_img"
  by (simp add: recognize_face_scan [OF assms] not_exists_after_remove)

theorem recognize_face_removes_temp_image_witness:
  "os_path_exists
     (cv2_imwrite
        (\<lparr>ledger = Absent, ledger_write_error = None, db_dir = True,
          disk = [(''faces_db/ann.jpg'', 1)], writable = (\<lambda>p. True)\<rparr> :: nat world)
        temp_img 9) temp_img \<and>
   \<not> os_path_exists
       (world_after
          (recognize_face (\<lambda>w a b. Verified False)
             (\<lparr>ledger = Absent, ledger_write_error = None, db_dir = True,
               disk = [(''faces_db/ann.jpg'', 1)], writable = (\<lambda>p. True)\<rparr> :: nat world) 9))
       temp_img"
  using recognize_face_removes_temp_image
    [of "\<lparr>ledger = Absent, ledger_write_error = None, db_dir = True,
          disk = [(''faces_db/ann.jpg'', 1)], writable = (\<lambda>p. True)\<rparr> :: nat world"
        "\<lambda>w a b. Verified False" 9]
  by (simp add: eval_fs)

text \<open>
  What \<open>recognize_face\<close> enumerates and returns. The oracle is called only for entries
  of the directory whose name ends in \<open>.jpg\<close>. A returned identity is
  \<open>os.path.splitext(file)[0]\<close> of such an entry the oracle verified: the name without
  its last four characters when a character other than a dot stands before \<open>.jpg\<close>,
  the whole name otherwise. When no entry ends in \<open>.jpg\<close>, the result is None and the
  oracle is not called.
\<close>

theorem recognize_face_jpg_files_only:
  "set (oracle_calls (recognize_face verify w fr))
     \<subseteq> os_path_join DB_PATH ` {f \<in> set (os_listdir w DB_PATH). py_endswith f ''.jpg''} \<and>
   (\<forall>name. recognized (recognize_face verify w fr) = Some name \<longrightarrow>
      (\<exists>f\<in>set (os_listdir w DB_PATH).
         py_endswith f ''.jpg'' \<and>
         verify (cv2_imwrite w temp_img fr) temp_img (os_path_join DB_PATH f) = Verified True \<and>
         name = fst (os_path_splitext f) \<and>
         name = (if list_ex (\<lambda>c. c \<noteq> CHR ''.'') (take (length f - 4) f)
                 then take (length f - 4) f else f))) \<and>
   ((\<forall>f\<in>set (os_listdir w DB_PATH). \<not> py_endswith f ''.jpg'') \<longrightarrow>
      recognized (recognize_face verify w fr) = None \<and>
      oracle_calls (recognize_face verify w fr) = [])"
proof (cases "db_dir w \<and> os_listdir w DB_PATH \<noteq> []")
  case False
  then show ?thesis by (simp add: recognize_face_guard)
next
  case True
  then have a: "db_dir w" and b: "os_listdir w DB_PATH \<noteq> []" by simp_all
  let ?w1 = "cv2_imwrite w temp_img fr"
  let ?fs = "filter (\<lambda>f. py_endswith f ''.jpg'') (os_listdir w DB_PATH)"
  have r: "recognized (recognize_face verify w fr) = fst (scan_files verify ?w1 ?fs)"
    and c: "oracle_calls (recognize_face verify w fr) = fst (snd (scan_files verify ?w1 ?fs))"
    by (simp_all add: recognize_face_scan [OF a b])
  have 1: "set (oracle_calls (recognize_face verify w fr))
     \<subseteq> os_path_join DB_PATH ` {f \<in> set (os_listdir w DB_PATH). py_endswith f ''.jpg''}"
    using scan_calls_subset [where verify = verify and w = ?w1 and fs = ?fs]
    by (simp add: c)
  have 2: "\<exists>f\<in>set (os_listdir w DB_PATH).
         py_endswith f ''.jpg'' \<and>
         verify ?w1 temp_img (os_path_join DB_PATH f) = Verified True \<and>
         name = fst (os_path_splitext f) \<and>
         name = (if list_ex (\<lambda>c. c \<noteq> CHR ''.'') (take (length f - 4) f)
                 then take (length f - 4) f else f)"
    if "recognized (recognize_face verify w fr) = Some name" for name
  proof -
    from that have "fst (scan_files verify ?w1 ?fs) = Some name" by (simp add: r)
    then obtain f where f: "f \<in> set ?fs"
      "verify ?w1 temp_img (os_path_join DB_PATH f) = Verified True"
      "name = fst (os_path_splitext f)"
      using scan_some [where verify = verify and w = ?w1 and fs = ?fs and name = name]
      by blast
    from f(1) have m: "f \<in> set (os_listdir w DB_PATH)" and j: "py_endswith f ''.jpg''"
      by simp_all
    from f(3) have "name = (if list_ex (\<lambda>c. c \<noteq> CHR ''.'') (take (length f - 4) f)
                 then take (length f - 4) f else f)"
      by (simp only: splitext_listed_jpg [OF m j])
    with m j f(2) f(3) show ?thesis by blast
  qed
  have 3: "recognized (recognize_face verify w fr) = None \<and>
      oracle_calls (recognize_face verify w fr) = []"
    if "\<forall>f\<in>set (os_listdir w DB_PATH). \<not> py_endswith f ''.jpg''"
  proof -
    from that have "?fs = []" by (simp add: filter_empty_conv)
    then show ?thesis by (simp add: r c)
  qed
  from 1 2 3 show ?thesis by blast
qed

theorem recognize_face_jpg_files_only_witness:
  "recognized
     (recognize_face (\<lambda>w a b. Verified True)
        (\<lparr>ledger = Absent, ledger_write_error = None, db_dir = True,
          disk = [(''faces_db/notes.txt'', 1), (''faces_db/bob.png'', 2)],
          writable = (\<lambda>p. True)\<rparr> :: nat world) 9) = None \<and>
   oracle_calls
     (recognize_face (\<lambda>w a b. Verified True)
        (\<lparr>ledger = Absent, ledger_write_error = None, db_dir = True,
          disk = [(''faces_db/notes.txt'', 1), (''faces_db/bob.png'', 2)],
          writable = (\<lambda>p. True)\<rparr> :: nat world) 9) = [] \<and>
   recognized
     (recognize_face (\<lambda>w a b. Verified True)
        (\<lparr>ledger = Absent, ledger_write_error = None, db_dir = True,
          disk = [(''faces_db/notes.txt'', 1), (''faces_db/bob.jpg'', 2)],
          writable = (\<lambda>p. True)\<rparr> :: nat world) 9) = Some ''bob'' \<and>
   oracle_calls
     (recognize_face (\<lambda>w a b. Verified True)
        (\<lparr>ledger = Absent, ledger_write_error = None, db_dir = True,
          disk = [(''faces_db/notes.txt'', 1), (''faces_db/bob.jpg'', 2)],
          writable = (\<lambda>p. True)\<rparr> :: nat world) 9) = [''faces_db/bob.jpg'']"
  using recognize_face_jpg_files_only
    [of "\<lambda>w a b. Verified True"
        "\<lparr>ledger = Absent, ledger_write_error = None, db_dir = True,
          disk = [(''faces_db/notes.txt'', 1), (''faces_db/bob.png'', 2)],
          writable = (\<lambda>p. True)\<rparr> :: nat world" 9]
    recognize_face_jpg_files_only
    [of "\<lambda>w a b. Verified True"
        "\<lparr>ledger = Absent, ledger_write_error = None, db_dir = True,
          disk = [(''faces_db/notes.txt'', 1), (''faces_db/bob.jpg'', 2)],
          writable = (\<lambda>p. True)\<rparr> :: nat world" 9]
  by (simp add: recognize_face_def eval_fs Let_def)

section \<open>Registration\<close>

text \<open>
  What a click on Capture Face does. With a name that is empty or all whitespace it is
  answered with an error before the camera is opened, and no file changes. With any
  other name, a frame from the camera and a write that succeeds, the file
  \<open>faces_db/<trimmed name>.jpg\<close> holds the frame afterwards, whatever it held
  before, no other file changes, only a success message is shown, and, when the trimmed
  name has no path separator, the file is an entry of the directory.
\<close>

theorem add_face_registration:
  "((\<forall>c\<in>set name. py_isspace c) \<longrightarrow>
      camera_opened (add_face w st name True cam) = 0 \<and>
      reg_world (add_face w st name True cam) = w \<and>
      reg_msgs (add_face w st name True cam) = [Msg Error ''Please enter a valid name.'']) \<and>
   (\<not> (\<forall>c\<in>set name. py_isspace c) \<and> cam = Captured img \<and>
    writable w (os_path_join DB_PATH (py_strip name @ ''.jpg'')) \<longrightarrow>
      map_of (disk (reg_world (add_face w st name True cam)))
        (os_path_join DB_PATH (py_strip name @ ''.jpg'')) = Some img \<and>
      (\<forall>p. p \<noteq> os_path_join DB_PATH (py_strip name @ ''.jpg'') \<longrightarrow>
           map_of (disk (reg_world (add_face w st name True cam))) p = map_of (disk w) p) \<and>
      (\<forall>m\<in>set (reg_msgs (add_face w st name True cam)). level_of m = Success) \<and>
      (CHR ''/'' \<notin> set (py_strip name) \<longrightarrow>
         py_strip name @ ''.jpg''
           \<in> set (os_listdir (reg_world (add_face w st name True cam)) DB_PATH)))"
proof -
  have 1: "camera_opened (add_face w st name True cam) = 0 \<and>
      reg_world (add_face w st name True cam) = w \<and>
      reg_msgs (add_face w st name True cam) = [Msg Error ''Please enter a valid name.'']"
    if "\<forall>c\<in>set name. py_isspace c"
    using that by (simp add: add_face_def py_strip_empty_iff)
  have 2: "map_of (disk (reg_world (add_face w st name True cam)))
        (os_path_join DB_PATH (py_strip name @ ''.jpg'')) = Some img \<and>
      (\<forall>p. p \<noteq> os_path_join DB_PATH (py_strip name @ ''.jpg'') \<longrightarrow>
           map_of (disk (reg_world (add_face w st name True cam))) p = map_of (disk w) p) \<and>
      (\<forall>m\<in>set (reg_msgs (add_face w st name True cam)). level_of m = Success) \<and>
      (CHR ''/'' \<notin> set (py_strip name) \<longrightarrow>
         py_strip name @ ''.jpg''
           \<in> set (os_listdir (reg_world (add_face w st name True cam)) DB_PATH))"
    if h: "\<not> (\<forall>c\<in>set name. py_isspace c)" "cam = Captured img"
      "writable w (os_path_join DB_PATH (py_strip name @ ''.jpg''))"
  proof -
    from h(1) have ne: "py_strip name \<noteq> []"
      by (simp add: py_strip_empty_iff)
    have rw: "reg_world (add_face w st name True cam) =
        cv2_imwrite w (os_path_join DB_PATH (py_strip name @ ''.jpg'')) img"
      and rm: "reg_msgs (add_face w st name True cam) =
        [Msg Success (''Face successfully registered for **'' @ py_strip name @ ''**!'')]"
      using ne h(2) by (simp_all add: add_face_def Let_def)
    have d: "disk (cv2_imwrite w (os_path_join DB_PATH (py_strip name @ ''.jpg'')) img) =
        AList.update (os_path_join DB_PATH (py_strip name @ ''.jpg'')) img (disk w)"
      using h(3) by (simp add: cv2_imwrite_def)
    have l: "py_strip name @ ''.jpg''
           \<in> set (os_listdir (reg_world (add_face w st name True cam)) DB_PATH)"
      if "CHR ''/'' \<notin> set (py_strip name)"
      unfolding rw using h(3) that by (intro listed_after_imwrite) simp_all
    show ?thesis
      using l by (simp add: rw rm d update_conv')
  qed
  from 1 2 show ?thesis by blast
qed

theorem add_face_registration_witness:
  "camera_opened
     (add_face
        (\<lparr>ledger = Absent, ledger_write_error = None, db_dir = True,
          disk = [(''faces_db/Alice.jpg'', 3)], writable = (\<lambda>p. True)\<rparr> :: nat world)
        \<lparr>capture_face = Some False, face_name = Some []\<rparr> ''   '' True (Captured 7)) = 0 \<and>
   map_of
     (disk (reg_world
        (add_face
           (\<lparr>ledger = Absent, ledger_write_error = None, db_dir = True,
             disk = [(''faces_db/Alice.jpg'', 3)], writable = (\<lambda>p. True)\<rparr> :: nat world)
           \<lparr>capture_face = Some False, face_name = Some []\<rparr> ''  Alice '' True (Captured 7))))
     ''faces_db/Alice.jpg'' = Some 7 \<and>
   ''Alice.jpg''
     \<in> set (os_listdir
         (reg_world
            (add_face
               (\<lparr>ledger = Absent, ledger_write_error = None, db_dir = True,
                 disk = [(''faces_db/Alice.jpg'', 3)], writable = (\<lambda>p. True)\<rparr> :: nat world)
               \<lparr>capture_face = Some False, face_name = Some []\<rparr> ''  Alice '' True
               (Captured 7)))
         DB_PATH)"
  using add_face_registration
    [of "''   ''"
        "\<lparr>ledger = Absent, ledger_write_error = None, db_dir = True,
          disk = [(''faces_db/Alice.jpg'', 3)], writable = (\<lambda>p. True)\<rparr> :: nat world"
        "\<lparr>capture_face = Some False, face_name = Some []\<rparr>" "Captured 7" 7]
    add_face_registration
    [of "''  Alice ''"
        "\<lparr>ledger = Absent, ledger_write_error = None, db_dir = True,
          disk = [(''faces_db/Alice.jpg'', 3)], writable = (\<lambda>p. True)\<rparr> :: nat world"
        "\<lparr>capture_face = Some False, face_name = Some []\<rparr>" "Captured 7" 7]
  by (simp add: py_strip_def py_isspace_def os_path_join_def DB_PATH_def)

text \<open>
  C7. The image is not stored under every name that is non-empty after trimming. With
  the name \<open>sub/x\<close> and no directory \<open>faces_db/sub\<close>, \<open>cv2.imwrite\<close> returns
  False and writes nothing; \<open>add_face\<close> does not look at the result: the camera was
  used, no file exists afterwards, the directory lists no identity, and the only message
  shown is that the face was registered.
\<close>

theorem add_face_reports_success_without_storing:
  "camera_opened
     (add_face
        (\<lparr>ledger = Absent, ledger_write_error = None, db_dir = True, disk = [],
          writable = (\<lambda>p. CHR ''/'' \<notin> set (drop 9 p))\<rparr> :: nat world)
        \<lparr>capture_face = Some False, face_name = Some []\<rparr> ''sub/x'' True (Captured 7)) = 1 \<and>
   disk (reg_world
     (add_face
        (\<lparr>ledger = Absent, ledger_write_error = None, db_dir = True, disk = [],
          writable = (\<lambda>p. CHR ''/'' \<notin> set (drop 9 p))\<rparr> :: nat world)
        \<lparr>capture_face = Some False, face_name = Some []\<rparr> ''sub/x'' True (Captured 7))) = [] \<and>
   os_listdir (reg_world
     (add_face
        (\<lparr>ledger = Absent, ledger_write_error = None, db_dir = True, disk = [],
          writable = (\<lambda>p. CHR ''/'' \<notin> set (drop 9 p))\<rparr> :: nat world)
        \<lparr>capture_face = Some False, face_name = Some []\<rparr> ''sub/x'' True (Captured 7)))
     DB_PATH = [] \<and>
   reg_msgs
     (add_face
        (\<lparr>ledger = Absent, ledger_write_error = None, db_dir = True, disk = [],
          writable = (\<lambda>p. CHR ''/'' \<notin> set (drop 9 p))\<rparr> :: nat world)
        \<lparr>capture_face = Some False, face_name = Some []\<rparr> ''sub/x'' True (Captured 7))
     = [Msg Success ''Face successfully registered for **sub/x**!'']"
  by (simp add: add_face_def py_strip_def py_isspace_def eval_fs Let_def)

text \<open>
  C10. The identity returned is not always the file's name with \<open>.jpg\<close> removed. A
  registration under the name \<open>.\<close> writes the file \<open>faces_db/..jpg\<close>, whose name
  ends in \<open>.jpg\<close>; when the oracle verifies it, \<open>recognize_face\<close> returns
  \<open>..jpg\<close>, the whole file name, where the name with \<open>.jpg\<close> removed is the
  registered \<open>.\<close>: \<open>os.path.splitext\<close> takes leading dots as part of the root.
\<close>

theorem registered_dot_name_identified_as_file_name:
  "disk (reg_world
     (add_face
        (\<lparr>ledger = Absent, ledger_write_error = None, db_dir = True, disk = [],
          writable = (\<lambda>p. True)\<rparr> :: nat world)
        \<lparr>capture_face = Some False, face_name = Some []\<rparr> ''.'' True (Captured 7)))
     = [(''faces_db/..jpg'', 7)] \<and>
   oracle_calls
     (recognize_face (\<lambda>w a b. Verified True)
        (reg_world
           (add_face
              (\<lparr>ledger = Absent, ledger_write_error = None, db_dir = True, disk = [],
                writable = (\<lambda>p. True)\<rparr> :: nat world)
              \<lparr>capture_face = Some False, face_name = Some []\<rparr> ''.'' True (Captured 7)))
        9) = [''faces_db/..jpg''] \<and>
   recognized
     (recognize_face (\<lambda>w a b. Verified True)
        (reg_world
           (add_face
              (\<lparr>ledger = Absent, ledger_write_error = None, db_dir = True, disk = [],
                writable = (\<lambda>p. True)\<rparr> :: nat world)
              \<lparr>capture_face = Some False, face_name = Some []\<rparr> ''.'' True (Captured 7)))
        9) = Some ''..jpg''"
  by (simp add: add_face_def py_strip_def py_isspace_def recognize_face_def eval_fs Let_def)

theorem registered_dot_name_identified_as_file_name_witness:
  "recognized
     (recognize_face (\<lambda>w a b. Verified True)
        (reg_world
           (add_face
              (\<lparr>ledger = Absent, ledger_write_error = None, db_dir = True, disk = [],
                writable = (\<lambda>p. True)\<rparr> :: nat world)
              \<lparr>capture_face = Some False, face_name = Some []\<rparr> ''.'' True (Captured 7)))
        9) \<noteq> Some ''.''"
  using registered_dot_name_identified_as_file_name by simp

section \<open>The session controller\<close>




text \<open>
  C9. When the verifier returns a non-empty name for the frame of the session and
  \<open>log_check\<close> returns False, the run of Verify leaves the session as it was (the
  frame kept, \<open>verification_done\<close> not set) and shows the error that the record
  failed.
\<close>

theorem failed_append_not_marked_done:
  assumes "frame s = Some fr"
    and "recognized (recognize_face verify w fr) = Some name" and "name \<noteq> []"
    and "log_check (world_after (recognize_face verify w fr)) name check_type now
           = Inr (False, w', msgs)"
  shows "session_after (webcam_verification verify w (Some s) check_type VerifyButton cam now)
           = Some s \<and>
         Msg Error (''Failed to record '' @ check_type @ '' for '' @ name)
           \<in> set (ver_msgs (webcam_verification verify w (Some s) check_type VerifyButton cam now))"
proof -
  from assms(2) have "db_dir w \<and>
      filter (\<lambda>f. py_endswith f ''.jpg'') (os_listdir w DB_PATH) \<noteq> []"
    by (rule recognized_some_guard)
  then have g: "\<not> (\<not> os_path_exists w DB_PATH \<or>
            length (filter (\<lambda>f. py_endswith f ''.jpg'') (os_listdir w DB_PATH)) = 0)"
    using registered_guard by blast
  have v: "webcam_verification verify w (Some s) check_type VerifyButton cam now =
      verify_clicked verify w s fr check_type now"
    using g assms(1) by (cases cam) (simp_all add: webcam_verification_def frame_panel_def Let_def)
  from assms(4) have l:
    "Msg Error (''Failed to record '' @ check_type @ '' for '' @ name) \<in> set msgs"
    by (rule log_check_false)
  show ?thesis
    using assms(2,3,4) l
    by (simp add: v verify_clicked_def Let_def)
qed

theorem failed_append_not_marked_done_witness:
  "session_after
     (webcam_verification (\<lambda>w a b. Verified True)
        (\<lparr>ledger = Json (Records []),
          ledger_write_error = Some (DumpFails (Raise OSError ''No space left on device'')),
          db_dir = True,
          disk = [(''faces_db/bob.jpg'', 2)], writable = (\<lambda>p. True)\<rparr> :: nat world)
        (Some \<lparr>frame = Some 5, verification_done = False,
               last_capture_time = Some ''2024-01-01 09:00:00''\<rparr>)
        ''Check-In'' VerifyButton NotOpened ''2024-01-01 09:01:00'')
     = Some \<lparr>frame = Some 5, verification_done = False,
             last_capture_time = Some ''2024-01-01 09:00:00''\<rparr> \<and>
   Msg Error ''Failed to record Check-In for bob''
     \<in> set (ver_msgs
         (webcam_verification (\<lambda>w a b. Verified True)
            (\<lparr>ledger = Json (Records []),
              ledger_write_error = Some (DumpFails (Raise OSError ''No space left on device'')),
              db_dir = True,
              disk = [(''faces_db/bob.jpg'', 2)], writable = (\<lambda>p. True)\<rparr> :: nat world)
            (Some \<lparr>frame = Some 5, verification_done = False,
                   last_capture_time = Some ''2024-01-01 09:00:00''\<rparr>)
            ''Check-In'' VerifyButton NotOpened ''2024-01-01 09:01:00''))"
proof -
  let ?w = "\<lparr>ledger = Json (Records []),
          ledger_write_error = Some (DumpFails (Raise OSError ''No space left on device'')),
          db_dir = True,
          disk = [(''faces_db/bob.jpg'', 2)], writable = (\<lambda>p. True)\<rparr> :: nat world"
  let ?v = "(\<lambda>w a b. Verified True) :: nat similarity_oracle"
  let ?s = "\<lparr>frame = Some 5, verification_done = False,
          last_capture_time = Some ''2024-01-01 09:00:00''\<rparr> :: nat session"
  have r: "recognized (recognize_face ?v ?w 5) = Some ''bob''"
    by (simp add: recognize_face_def eval_fs Let_def)
  have wa: "world_after (recognize_face ?v ?w 5) = ?w"
    by (simp add: recognize_face_def eval_fs Let_def)
  have l: "log_check (world_after (recognize_face ?v ?w 5)) ''bob'' ''Check-In''
             ''2024-01-01 09:01:00''
           = Inr (False,
                  \<lparr>ledger = NotJson,
                   ledger_write_error =
                     Some (DumpFails (Raise OSError ''No space left on device'')),
                   db_dir = True,
                   disk = [(''faces_db/bob.jpg'', 2)], writable = (\<lambda>p. True)\<rparr>,
                  [Msg Error ''Error saving JSON: No space left on device'',
                   Msg Error ''Failed to record Check-In for bob''])"
    by (simp add: wa log_check_def load_attendance_data_def json_load_def pd_DataFrame_def
        os_path_exists_def save_attendance_data_def pd_concat_def to_dict_records_def)
  have f: "frame ?s = Some 5" by simp
  have n: "''bob'' \<noteq> []" by simp
  from failed_append_not_marked_done [OF f r n l, of NotOpened] show ?thesis by simp
qed

end
